theory Spec2Isabelle
  imports Main "HOL-Library.Product_Lexorder" "HOL-Library.Multiset"
begin

section \<open>The Cassandra tables\<close>

text \<open>
  The access layer of \<^verbatim>\<open>app/models/cassandra_models.py\<close> talks to four tables, created by
  \<^verbatim>\<open>create_tables\<close> in \<^verbatim>\<open>scripts/setup_db.py\<close>. Every column is an \<^verbatim>\<open>INT\<close>, a
  \<^verbatim>\<open>TEXT\<close> or a \<^verbatim>\<open>TIMESTAMP\<close>; identifiers are Python integers (\<open>int\<close>) and texts are
  strings.

  Time has two precisions. A Python \<^verbatim>\<open>datetime\<close> counts microseconds: it is modelled by
  the number of microseconds since the epoch. A \<^verbatim>\<open>TIMESTAMP\<close> column counts milliseconds:
  it is modelled by the number of milliseconds since the epoch. When a \<^verbatim>\<open>datetime\<close> is a
  parameter of a statement, the driver sends \<^verbatim>\<open>int(seconds * 1e3 + microsecond / 1e3)\<close>,
  the milliseconds with their fraction cut off (\<^verbatim>\<open>int\<close> rounds towards zero); when a row
  is read, the driver hands the column over as the \<^verbatim>\<open>datetime\<close> of that millisecond.
\<close>

type_synonym datetime = int

type_synonym timestamp = int

definition timestamp_of_datetime :: "datetime \<Rightarrow> timestamp" where
  "timestamp_of_datetime d = (if 0 \<le> d then d div 1000 else - ((- d) div 1000))"

definition datetime_of_timestamp :: "timestamp \<Rightarrow> datetime" where
  "datetime_of_timestamp t = t * 1000"

text \<open>Table \<^verbatim>\<open>messages\<close>, primary key \<^verbatim>\<open>(conversation_id, timestamp, message_id)\<close>.\<close>

record message_row =
  m_conversation_id :: int
  m_sender_id :: int
  m_receiver_id :: int
  m_timestamp :: timestamp
  m_message_id :: int
  m_content :: string

text \<open>Table \<^verbatim>\<open>user_conversations\<close> (the conversation summary), primary key \<^verbatim>\<open>conversation_id\<close>.\<close>

record summary_row =
  s_sender_id :: int
  s_receiver_id :: int
  s_conversation_id :: int
  s_last_timestamp :: timestamp
  s_last_message :: string

text \<open>Table \<^verbatim>\<open>conversations\<close> (the conversation identity), primary key
  \<^verbatim>\<open>(conversation_id, sender_id)\<close>.\<close>

record identity_row =
  i_conversation_id :: int
  i_sender_id :: int
  i_receiver_id :: int
  i_last_timestamp :: timestamp

text \<open>
  The store: table \<^verbatim>\<open>indexes\<close> maps a counter name to its value, the other three tables
  are lists of rows. The position of a row in its list is the position at which a scan of
  the table meets it. A row holds its \<^verbatim>\<open>TIMESTAMP\<close> column in milliseconds.
\<close>

record store =
  indexes :: "string \<rightharpoonup> int"
  messages :: "message_row list"
  user_conversations :: "summary_row list"
  conversations :: "identity_row list"

definition empty_store :: store where
  "empty_store = \<lparr>indexes = Map.empty, messages = [], user_conversations = [], conversations = []\<rparr>"

subsection \<open>Statements\<close>

text \<open>
  An \<^verbatim>\<open>INSERT\<close> writes the row of its primary key: it replaces the row that has this key
  or adds a new one.
\<close>

fun upsert :: "('a \<Rightarrow> 'k) \<Rightarrow> 'a \<Rightarrow> 'a list \<Rightarrow> 'a list" where
  "upsert key row [] = [row]"
| "upsert key row (r # rs) = (if key r = key row then row # rs else r # upsert key row rs)"

text \<open>\<^verbatim>\<open>SELECT index_value FROM indexes WHERE index_name = name\<close>\<close>

definition select_index :: "store \<Rightarrow> string \<Rightarrow> int list" where
  "select_index st name = (case indexes st name of None \<Rightarrow> [] | Some v \<Rightarrow> [v])"

text \<open>
  \<^verbatim>\<open>UPDATE indexes SET index_value = index_value + 1 WHERE index_name = name\<close>: the column
  is a \<^verbatim>\<open>COUNTER\<close>, so a counter that has no row yet counts from 0. The statement returns no
  rows.
\<close>

definition increment_index :: "store \<Rightarrow> string \<Rightarrow> store" where
  "increment_index st name =
     st\<lparr>indexes := (indexes st)(name \<mapsto> (case indexes st name of None \<Rightarrow> 1 | Some v \<Rightarrow> v + 1))\<rparr>"

text \<open>\<^verbatim>\<open>INSERT INTO messages (message_id, conversation_id, sender_id, receiver_id, content,
  timestamp) VALUES (...)\<close>\<close>

definition insert_message ::
  "store \<Rightarrow> int \<Rightarrow> int \<Rightarrow> int \<Rightarrow> int \<Rightarrow> string \<Rightarrow> datetime \<Rightarrow> store" where
  "insert_message st message_id conversation_id sender_id receiver_id content t =
     st\<lparr>messages :=
          upsert (\<lambda>r. (m_conversation_id r, m_timestamp r, m_message_id r))
            \<lparr>m_conversation_id = conversation_id, m_sender_id = sender_id,
             m_receiver_id = receiver_id, m_timestamp = timestamp_of_datetime t,
             m_message_id = message_id, m_content = content\<rparr>
            (messages st)\<rparr>"

text \<open>
  The rows of one partition of \<^verbatim>\<open>messages\<close> come back in the clustering order of the
  table, \<^verbatim>\<open>(timestamp DESC, message_id ASC)\<close>.
\<close>

definition clustering_order :: "message_row list \<Rightarrow> message_row list" where
  "clustering_order rows = sort_key (\<lambda>r. (- m_timestamp r, m_message_id r)) rows"

text \<open>\<^verbatim>\<open>SELECT ... FROM messages WHERE conversation_id = c ORDER BY timestamp DESC\<close>\<close>

definition select_messages :: "store \<Rightarrow> int \<Rightarrow> message_row list" where
  "select_messages st c = clustering_order (filter (\<lambda>r. m_conversation_id r = c) (messages st))"

text \<open>\<^verbatim>\<open>SELECT ... FROM messages WHERE conversation_id = c AND timestamp < t ORDER BY timestamp DESC\<close>\<close>

definition select_messages_before :: "store \<Rightarrow> int \<Rightarrow> datetime \<Rightarrow> message_row list" where
  "select_messages_before st c t =
     clustering_order
       (filter (\<lambda>r. m_conversation_id r = c \<and> m_timestamp r < timestamp_of_datetime t)
          (messages st))"

text \<open>\<^verbatim>\<open>SELECT COUNT(*) as count FROM messages WHERE ...\<close>: one row, which holds the count.\<close>

definition count_messages :: "store \<Rightarrow> int \<Rightarrow> int list" where
  "count_messages st c = [int (length (filter (\<lambda>r. m_conversation_id r = c) (messages st)))]"

definition count_messages_before :: "store \<Rightarrow> int \<Rightarrow> datetime \<Rightarrow> int list" where
  "count_messages_before st c t =
     [int (length (filter (\<lambda>r. m_conversation_id r = c \<and> m_timestamp r < timestamp_of_datetime t)
                     (messages st)))]"

text \<open>\<^verbatim>\<open>SELECT ... FROM user_conversations WHERE conversation_id = c\<close>\<close>

definition select_user_conversation :: "store \<Rightarrow> int \<Rightarrow> summary_row list" where
  "select_user_conversation st c = filter (\<lambda>r. s_conversation_id r = c) (user_conversations st)"

text \<open>\<^verbatim>\<open>SELECT ... FROM user_conversations WHERE sender_id = u ALLOW FILTERING\<close>\<close>

definition select_user_conversations_by_sender :: "store \<Rightarrow> int \<Rightarrow> summary_row list" where
  "select_user_conversations_by_sender st u = filter (\<lambda>r. s_sender_id r = u) (user_conversations st)"

text \<open>\<^verbatim>\<open>SELECT ... FROM user_conversations WHERE receiver_id = u ALLOW FILTERING\<close>\<close>

definition select_user_conversations_by_receiver :: "store \<Rightarrow> int \<Rightarrow> summary_row list" where
  "select_user_conversations_by_receiver st u =
     filter (\<lambda>r. s_receiver_id r = u) (user_conversations st)"

text \<open>\<^verbatim>\<open>INSERT INTO user_conversations (conversation_id, sender_id, receiver_id,
  last_timestamp, last_message) VALUES (...)\<close>\<close>

definition insert_user_conversation ::
  "store \<Rightarrow> int \<Rightarrow> int \<Rightarrow> int \<Rightarrow> datetime \<Rightarrow> string \<Rightarrow> store" where
  "insert_user_conversation st c s r t m =
     st\<lparr>user_conversations :=
          upsert s_conversation_id
            \<lparr>s_sender_id = s, s_receiver_id = r, s_conversation_id = c,
             s_last_timestamp = timestamp_of_datetime t, s_last_message = m\<rparr>
            (user_conversations st)\<rparr>"

text \<open>
  \<^verbatim>\<open>UPDATE user_conversations SET last_timestamp = t, last_message = m, sender_id = s,
  receiver_id = r WHERE conversation_id = c\<close>: the statement sets every column that is not
  the key, so it writes the same row as the \<^verbatim>\<open>INSERT\<close> of these values.
\<close>

definition update_user_conversation ::
  "store \<Rightarrow> datetime \<Rightarrow> string \<Rightarrow> int \<Rightarrow> int \<Rightarrow> int \<Rightarrow> store" where
  "update_user_conversation st t m s r c =
     st\<lparr>user_conversations :=
          upsert s_conversation_id
            \<lparr>s_sender_id = s, s_receiver_id = r, s_conversation_id = c,
             s_last_timestamp = timestamp_of_datetime t, s_last_message = m\<rparr>
            (user_conversations st)\<rparr>"

text \<open>\<^verbatim>\<open>SELECT conversation_id FROM conversations WHERE sender_id = s AND receiver_id = r
  ALLOW FILTERING\<close>\<close>

definition select_conversation_ids :: "store \<Rightarrow> int \<Rightarrow> int \<Rightarrow> int list" where
  "select_conversation_ids st s r =
     map i_conversation_id
       (filter (\<lambda>row. i_sender_id row = s \<and> i_receiver_id row = r) (conversations st))"

text \<open>\<^verbatim>\<open>INSERT INTO conversations (conversation_id, sender_id, receiver_id, last_timestamp)
  VALUES (...)\<close>\<close>

definition insert_conversation :: "store \<Rightarrow> int \<Rightarrow> int \<Rightarrow> int \<Rightarrow> datetime \<Rightarrow> store" where
  "insert_conversation st c s r t =
     st\<lparr>conversations :=
          upsert (\<lambda>row. (i_conversation_id row, i_sender_id row))
            \<lparr>i_conversation_id = c, i_sender_id = s, i_receiver_id = r,
             i_last_timestamp = timestamp_of_datetime t\<rparr>
            (conversations st)\<rparr>"

section \<open>The access layer\<close>

subsection \<open>Allocating an identifier\<close>

text \<open>
  \<^verbatim>\<open>create_message\<close>, \<^verbatim>\<open>create_conversation\<close> and \<^verbatim>\<open>create_or_get_conversation\<close> open
  with the same three statements, for the counter \<^verbatim>\<open>message_id\<close> or \<^verbatim>\<open>conversation_id\<close>:
  \<^verbatim>\<open>
  output = await cassandra_client.execute("SELECT index_value FROM indexes WHERE index_name = ...")
  msg_id = output[0]["index_value"] + 1 if output else 1
  await cassandra_client.execute("UPDATE indexes SET index_value = index_value + 1 WHERE ...")
  \<close>
  \<open>id_of_output\<close> is the second line, \<open>next_id\<close> the three of them: it returns the
  identifier and the store after the \<^verbatim>\<open>UPDATE\<close>.
\<close>

definition id_of_output :: "int list \<Rightarrow> int" where
  "id_of_output output = (case output of [] \<Rightarrow> 1 | index_value # _ \<Rightarrow> index_value + 1)"

definition next_id :: "store \<Rightarrow> string \<Rightarrow> int \<times> store" where
  "next_id st name =
     (let output = select_index st name;
          new_id = id_of_output output;
          st' = increment_index st name
      in (new_id, st'))"

text \<open>The value of a counter, an absent row read as 0.\<close>

definition counter_value :: "store \<Rightarrow> string \<Rightarrow> int" where
  "counter_value st name = (case indexes st name of None \<Rightarrow> 0 | Some v \<Rightarrow> v)"

subsection \<open>Slices\<close>

text \<open>
  Python's \<^verbatim>\<open>xs[a:b]\<close> on a list of length \<open>n\<close>: a negative bound counts from the end
  (\<open>n\<close> is added to it), then each bound is clamped into \<open>0..n\<close>, and the slice is
  empty when the upper bound does not exceed the lower one. No bound raises.
\<close>

definition slice_bound :: "nat \<Rightarrow> int \<Rightarrow> nat" where
  "slice_bound n i = (if i < 0 then nat (max 0 (i + int n)) else min (nat i) n)"

definition py_slice :: "'a list \<Rightarrow> int \<Rightarrow> int \<Rightarrow> 'a list" where
  "py_slice xs a b =
     (let lo = slice_bound (length xs) a; hi = slice_bound (length xs) b
      in take (hi - lo) (drop lo xs))"

text \<open>
  The three listings compute the start of the page with the same line,
  \<^verbatim>\<open>offset = (page - 1) * limit\<close>, on unbounded integers and with no check of
  \<^verbatim>\<open>page\<close> or \<^verbatim>\<open>limit\<close> before it.
\<close>

definition page_offset :: "int \<Rightarrow> int \<Rightarrow> int" where
  "page_offset page limit = (page - 1) * limit"

subsection \<open>MessageModel\<close>

text \<open>The dictionary that \<^verbatim>\<open>create_message\<close> returns.\<close>

record created_message =
  cm_message_id :: int
  cm_sender_id :: int
  cm_receiver_id :: int
  cm_content :: string
  cm_timestamp :: datetime
  cm_conversation_id :: int

text \<open>
  \<^verbatim>\<open>create_message\<close>. The argument \<open>now\<close> is the value of \<^verbatim>\<open>datetime.now()\<close> at the
  call. The two logging branches on \<^verbatim>\<open>rows.current_rows\<close> write no state.
\<close>

definition create_message ::
  "store \<Rightarrow> datetime \<Rightarrow> int \<Rightarrow> int \<Rightarrow> int \<Rightarrow> string \<Rightarrow> created_message \<times> store" where
  "create_message st now conversation_id sender_id receiver_id content =
     (let (msg_id, st1) = next_id st ''message_id'';
          created_at = now;
          st2 = insert_message st1 msg_id conversation_id sender_id receiver_id content
                  created_at;
          rows = select_user_conversation st2 conversation_id;
          st3 = (if rows = []
                 then insert_user_conversation st2 conversation_id sender_id receiver_id
                        created_at content
                 else update_user_conversation st2 created_at content sender_id receiver_id
                        conversation_id)
      in (\<lparr>cm_message_id = msg_id, cm_sender_id = sender_id, cm_receiver_id = receiver_id,
           cm_content = content, cm_timestamp = created_at,
           cm_conversation_id = conversation_id\<rparr>, st3))"

text \<open>An entry of the list that the two message listings return.\<close>

record listed_message =
  lm_id :: int
  lm_sender_id :: int
  lm_receiver_id :: int
  lm_content :: string
  lm_created_at :: datetime
  lm_conversation_id :: int

definition message_of_row :: "int \<Rightarrow> message_row \<Rightarrow> listed_message" where
  "message_of_row conversation_id row =
     \<lparr>lm_id = m_message_id row, lm_sender_id = m_sender_id row,
      lm_receiver_id = m_receiver_id row, lm_content = m_content row,
      lm_created_at = datetime_of_timestamp (m_timestamp row),
      lm_conversation_id = conversation_id\<rparr>"

text \<open>
  The body of \<^verbatim>\<open>get_conversation_messages\<close> on the results of its two queries:
  \<open>count_output\<close> is what the \<^verbatim>\<open>COUNT\<close> query returned, \<open>output\<close> what the
  \<^verbatim>\<open>SELECT\<close> returned. The first \<open>total\<close> is overwritten before it is read.
\<close>

definition get_conversation_messages_on ::
  "int list \<Rightarrow> message_row list \<Rightarrow> int \<Rightarrow> int \<Rightarrow> int \<Rightarrow> listed_message list \<times> int" where
  "get_conversation_messages_on count_output output conversation_id page limit =
     (let total = (case count_output of [] \<Rightarrow> 0 | row_count # _ \<Rightarrow> row_count);
          messages = map (message_of_row conversation_id) output;
          total = int (length messages);
          offset = page_offset page limit;
          paginated_messages = py_slice messages offset (offset + limit);
          messages = (if paginated_messages \<noteq> [] then paginated_messages else [])
      in (messages, total))"

definition get_conversation_messages ::
  "store \<Rightarrow> int \<Rightarrow> int \<Rightarrow> int \<Rightarrow> listed_message list \<times> int" where
  "get_conversation_messages st conversation_id page limit =
     get_conversation_messages_on (count_messages st conversation_id)
       (select_messages st conversation_id) conversation_id page limit"

text \<open>\<^verbatim>\<open>get_messages_before_timestamp\<close>, in the same two layers.\<close>

definition get_messages_before_timestamp_on ::
  "int list \<Rightarrow> message_row list \<Rightarrow> int \<Rightarrow> int \<Rightarrow> int \<Rightarrow> listed_message list \<times> int" where
  "get_messages_before_timestamp_on count_output output conversation_id page limit =
     (let total = (case count_output of [] \<Rightarrow> 0 | row_count # _ \<Rightarrow> row_count);
          messages = map (message_of_row conversation_id) output;
          total = int (length messages);
          offset = page_offset page limit;
          paginated_messages = py_slice messages offset (offset + limit);
          messages = (if paginated_messages \<noteq> [] then paginated_messages else [])
      in (messages, total))"

definition get_messages_before_timestamp ::
  "store \<Rightarrow> int \<Rightarrow> datetime \<Rightarrow> int \<Rightarrow> int \<Rightarrow> listed_message list \<times> int" where
  "get_messages_before_timestamp st conversation_id before_timestamp page limit =
     get_messages_before_timestamp_on
       (count_messages_before st conversation_id before_timestamp)
       (select_messages_before st conversation_id before_timestamp) conversation_id page limit"

subsection \<open>ConversationModel\<close>

text \<open>An entry of the list that \<^verbatim>\<open>get_user_conversations\<close> returns.\<close>

record listed_conversation =
  lc_id :: int
  lc_user1_id :: int
  lc_user2_id :: int
  lc_last_message_at :: datetime
  lc_last_message_content :: string

definition conversation_of_row :: "summary_row \<Rightarrow> listed_conversation" where
  "conversation_of_row row =
     \<lparr>lc_id = s_conversation_id row, lc_user1_id = s_sender_id row,
      lc_user2_id = s_receiver_id row,
      lc_last_message_at = datetime_of_timestamp (s_last_timestamp row),
      lc_last_message_content = s_last_message row\<rparr>"

text \<open>
  \<^verbatim>\<open>get_user_conversations\<close>. The source calls
  \<^verbatim>\<open>sorted(output_list_one, key=lambda x: x["last_timestamp"])\<close> as a statement:
  \<^verbatim>\<open>sorted\<close> builds a new list and leaves its argument as it is, and the new list is not
  bound to a name.
\<close>

definition get_user_conversations ::
  "store \<Rightarrow> int \<Rightarrow> int \<Rightarrow> int \<Rightarrow> listed_conversation list \<times> int" where
  "get_user_conversations st user_id page limit =
     (let output_one = select_user_conversations_by_sender st user_id;
          output_two = select_user_conversations_by_receiver st user_id;
          output_list_one = output_one @ output_two;
          unused = sort_key s_last_timestamp output_list_one;
          total = int (length output_list_one);
          offset = page_offset page limit;
          paginated_output = py_slice output_list_one offset (offset + limit);
          conversations = map conversation_of_row paginated_output
      in (conversations, total))"

text \<open>The dictionary that \<^verbatim>\<open>create_conversation\<close> returns.\<close>

record created_conversation =
  cc_conversation_id :: int
  cc_sender_id :: int
  cc_receiver_id :: int
  cc_created_at :: datetime

text \<open>
  \<^verbatim>\<open>create_conversation\<close>. Its \<^verbatim>\<open>except\<close> clause is reached when a statement fails in
  the store; the statements of this model do not fail.
\<close>

definition create_conversation ::
  "store \<Rightarrow> datetime \<Rightarrow> int \<Rightarrow> int \<Rightarrow> created_conversation \<times> store" where
  "create_conversation st now sender_id receiver_id =
     (let (conversation_id, st1) = next_id st ''conversation_id'';
          created_at = now;
          st2 = insert_conversation st1 conversation_id sender_id receiver_id created_at
      in (\<lparr>cc_conversation_id = conversation_id, cc_sender_id = sender_id,
           cc_receiver_id = receiver_id, cc_created_at = created_at\<rparr>, st2))"

text \<open>
  The dictionary that \<^verbatim>\<open>get_conversation\<close> and \<^verbatim>\<open>create_or_get_conversation\<close> return;
  \<^verbatim>\<open>last_message_content\<close> is \<^verbatim>\<open>None\<close> in the one that the creating branch builds.
\<close>

record conversation =
  cv_conversation_id :: int
  cv_sender_id :: int
  cv_receiver_id :: int
  cv_last_message_at :: datetime
  cv_last_message_content :: "string option"

text \<open>\<^verbatim>\<open>get_conversation\<close> returns \<^verbatim>\<open>None\<close> when the query has no row.\<close>

definition get_conversation :: "store \<Rightarrow> int \<Rightarrow> conversation option" where
  "get_conversation st conversation_id =
     (case select_user_conversation st conversation_id of
        [] \<Rightarrow> None
      | result # _ \<Rightarrow>
          Some \<lparr>cv_conversation_id = s_conversation_id result,
                cv_sender_id = s_sender_id result, cv_receiver_id = s_receiver_id result,
                cv_last_message_at = datetime_of_timestamp (s_last_timestamp result),
                cv_last_message_content = Some (s_last_message result)\<rparr>)"

text \<open>
  \<^verbatim>\<open>create_or_get_conversation\<close>. Both probes run before either result is looked at; a
  hit returns what \<^verbatim>\<open>get_conversation\<close> returns for the first identifier of the probe.
\<close>

definition create_or_get_conversation ::
  "store \<Rightarrow> datetime \<Rightarrow> int \<Rightarrow> int \<Rightarrow> conversation option \<times> store" where
  "create_or_get_conversation st now user1_id user2_id =
     (let output_one = select_conversation_ids st user1_id user2_id;
          output_two = select_conversation_ids st user2_id user1_id
      in case output_one of
           c # _ \<Rightarrow> (get_conversation st c, st)
         | [] \<Rightarrow>
             (case output_two of
                c # _ \<Rightarrow> (get_conversation st c, st)
              | [] \<Rightarrow>
                  (let (conversation_id, st1) = next_id st ''conversation_id'';
                       created_at = now;
                       st2 = insert_conversation st1 conversation_id user1_id user2_id
                               created_at
                   in (Some \<lparr>cv_conversation_id = conversation_id, cv_sender_id = user1_id,
                             cv_receiver_id = user2_id, cv_last_message_at = created_at,
                             cv_last_message_content = None\<rparr>, st2))))"

subsection \<open>Example stores\<close>

text \<open>
  Three messages sent in conversation 1, at the milliseconds 10, 30 and 20: the message
  identifiers are 1, 2 and 3.
\<close>

definition three_messages :: store where
  "three_messages =
     snd (create_message (snd (create_message (snd (create_message empty_store
       10000 1 5 6 ''a'')) 30000 1 6 5 ''b'')) 20000 1 5 6 ''c'')"

text \<open>The same three messages, and then a message in conversation 2, which gets identifier 4.\<close>

definition two_partitions :: store where
  "two_partitions = snd (create_message three_messages 40000 2 8 9 ''d'')"

text \<open>
  Three conversations of user 7, who sent the last message of conversations 1 and 2 (at
  the milliseconds 20 and 10) and received the last message of conversation 3 (at the
  millisecond 30).
\<close>

definition three_conversations :: store where
  "three_conversations =
     snd (create_message (snd (create_message (snd (create_message empty_store
       20000 1 7 8 ''x'')) 10000 2 7 9 ''y'')) 30000 3 9 7 ''z'')"

text \<open>
  User 5 wrote to themselves in conversation 1 and to user 6 in conversation 2.
\<close>

definition self_conversation :: store where
  "self_conversation =
     snd (create_message (snd (create_message empty_store 10000 1 5 5 ''n'')) 20000 2 5 6 ''m'')"

section \<open>Properties\<close>

subsection \<open>Identifier allocation\<close>

lemma counter_value_increment_index:
  "counter_value (increment_index st name) name = counter_value st name + 1"
  by (simp add: counter_value_def increment_index_def split: option.split)

lemma id_of_output_select_index:
  "id_of_output (select_index st name) = counter_value st name + 1"
  by (simp add: id_of_output_def select_index_def counter_value_def split: option.split)

text \<open>
  C5. Allocating an identifier for a counter reads the counter, an absent row counting
  as 0, and returns the value read plus 1, so the first allocation returns 1. The
  identifier is computed from the rows of the \<^verbatim>\<open>SELECT\<close> alone; the \<^verbatim>\<open>UPDATE\<close> that
  increments the stored counter is a statement of its own, issued after the read, and
  the store returned is the store after that increment. \<^verbatim>\<open>create_message\<close> and
  \<^verbatim>\<open>create_conversation\<close> hand out the identifier so computed.
\<close>

theorem next_id_reads_then_increments:
  "fst (next_id st name) = counter_value st name + 1
   \<and> fst (next_id (st\<lparr>indexes := (indexes st)(name := None)\<rparr>) name) = 1
   \<and> fst (next_id st name) = id_of_output (select_index st name)
   \<and> snd (next_id st name) = increment_index st name
   \<and> counter_value (snd (next_id st name)) name = counter_value st name + 1
   \<and> cm_message_id (fst (create_message st now c s r content))
       = counter_value st ''message_id'' + 1
   \<and> cc_conversation_id (fst (create_conversation st now s r))
       = counter_value st ''conversation_id'' + 1"
proof -
  have absent: "fst (next_id (st\<lparr>indexes := (indexes st)(name := None)\<rparr>) name) = 1"
    by (simp add: next_id_def id_of_output_def select_index_def)
  have message: "cm_message_id (fst (create_message st now c s r content))
       = counter_value st ''message_id'' + 1"
    by (simp add: create_message_def next_id_def Let_def id_of_output_select_index)
  have conversation: "cc_conversation_id (fst (create_conversation st now s r))
       = counter_value st ''conversation_id'' + 1"
    by (simp add: create_conversation_def next_id_def Let_def id_of_output_select_index)
  show ?thesis
    using absent message conversation
    by (simp add: next_id_def id_of_output_select_index counter_value_increment_index)
qed

subsection \<open>Writing a row\<close>

lemma upsert_filter_key:
  "\<exists>rest. filter (\<lambda>r. key r = key row) (upsert key row rows) = row # rest"
  by (induction rows) auto

lemma row_in_upsert: "row \<in> set (upsert key row rows)"
  by (induction rows) auto

lemma distinct_upsert:
  "distinct (map key rows) \<Longrightarrow> distinct (map key (upsert key row rows))"
proof (induction rows)
  case Nil
  then show ?case by simp
next
  case (Cons r rs)
  have "key ` set (upsert key row rs) \<subseteq> insert (key row) (key ` set rs)"
    by (induction rs) auto
  with Cons show ?case by auto
qed

lemma get_conversation_after_create_message:
  "get_conversation (snd (create_message st now c s r content)) c =
     Some \<lparr>cv_conversation_id = c, cv_sender_id = s, cv_receiver_id = r,
           cv_last_message_at = datetime_of_timestamp (timestamp_of_datetime now),
           cv_last_message_content = Some content\<rparr>"
proof -
  let ?row = "\<lparr>s_sender_id = s, s_receiver_id = r, s_conversation_id = c,
                s_last_timestamp = timestamp_of_datetime now, s_last_message = content\<rparr>"
  obtain msg_id st1 where n: "next_id st ''message_id'' = (msg_id, st1)"
    by (cases "next_id st ''message_id''")
  define st2 where "st2 = insert_message st1 msg_id c s r content now"
  have st3: "user_conversations (snd (create_message st now c s r content)) =
        upsert s_conversation_id ?row (user_conversations st2)"
    by (simp add: create_message_def n Let_def st2_def insert_user_conversation_def
        update_user_conversation_def)
  obtain rest where
    "filter (\<lambda>x. s_conversation_id x = s_conversation_id ?row)
       (upsert s_conversation_id ?row (user_conversations st2)) = ?row # rest"
    using upsert_filter_key [of s_conversation_id ?row "user_conversations st2"] by blast
  then show ?thesis
    by (simp add: get_conversation_def select_user_conversation_def st3)
qed

lemma message_row_after_create_message:
  "\<lparr>m_conversation_id = c, m_sender_id = s, m_receiver_id = r,
    m_timestamp = timestamp_of_datetime now,
    m_message_id = cm_message_id (fst (create_message st now c s r content)),
    m_content = content\<rparr>
   \<in> set (messages (snd (create_message st now c s r content)))"
proof -
  obtain msg_id st1 where n: "next_id st ''message_id'' = (msg_id, st1)"
    by (cases "next_id st ''message_id''")
  have "messages (snd (create_message st now c s r content)) =
      messages (insert_message st1 msg_id c s r content now)"
    by (simp add: create_message_def n Let_def insert_user_conversation_def
        update_user_conversation_def)
  moreover have "cm_message_id (fst (create_message st now c s r content)) = msg_id"
    by (simp add: create_message_def n Let_def)
  ultimately show ?thesis
    by (simp add: insert_message_def row_in_upsert)
qed

lemma whole_millisecond_read_back:
  "d mod 1000 = 0 \<Longrightarrow> datetime_of_timestamp (timestamp_of_datetime d) = d"
  unfolding datetime_of_timestamp_def timestamp_of_datetime_def by (auto; arith)

text \<open>
  C3, as the claim states it, fails: \<^verbatim>\<open>create_message\<close> returns \<^verbatim>\<open>datetime.now()\<close> with
  its microseconds, and writes it into the column \<^verbatim>\<open>last_timestamp\<close>, which keeps
  milliseconds. For a message created at the microsecond 100456, the message returned
  has the timestamp 100456 and \<^verbatim>\<open>get_conversation\<close> reads back 100000.
\<close>

theorem create_message_timestamp_not_read_back:
  "cm_timestamp (fst (create_message empty_store 100456 1 5 6 ''hello'')) = 100456
   \<and> map_option cv_last_message_at
         (get_conversation (snd (create_message empty_store 100456 1 5 6 ''hello'')) 1)
       = Some 100000"
  by code_simp

text \<open>
  C3, amended. After \<^verbatim>\<open>create_message(c, s, r, content)\<close>, \<^verbatim>\<open>get_conversation(c)\<close>
  returns a record, and its \<^verbatim>\<open>last_message_content\<close> is \<open>content\<close>, its sender and receiver
  are those of the message, and its \<^verbatim>\<open>last_message_at\<close> is the timestamp of the message
  that was created, cut to whole milliseconds. That is the timestamp under which the row
  of the message is stored, and it is the timestamp of the created message itself when
  that is a whole number of milliseconds. This holds in every store, whether it had a
  summary row for \<open>c\<close> (the \<^verbatim>\<open>UPDATE\<close> branch) or not (the \<^verbatim>\<open>INSERT\<close> branch).
\<close>

theorem create_message_updates_summary:
  "get_conversation (snd (create_message st now c s r content)) c =
     Some \<lparr>cv_conversation_id = c, cv_sender_id = s, cv_receiver_id = r,
           cv_last_message_at =
             datetime_of_timestamp
               (timestamp_of_datetime (cm_timestamp (fst (create_message st now c s r content)))),
           cv_last_message_content = Some content\<rparr>
   \<and> \<lparr>m_conversation_id = c, m_sender_id = s, m_receiver_id = r,
       m_timestamp =
         timestamp_of_datetime (cm_timestamp (fst (create_message st now c s r content))),
       m_message_id = cm_message_id (fst (create_message st now c s r content)),
       m_content = content\<rparr>
       \<in> set (messages (snd (create_message st now c s r content)))
   \<and> (cm_timestamp (fst (create_message st now c s r content)) mod 1000 = 0 \<longrightarrow>
        map_option cv_last_message_at
          (get_conversation (snd (create_message st now c s r content)) c)
        = Some (cm_timestamp (fst (create_message st now c s r content))))"
proof -
  have ts: "cm_timestamp (fst (create_message st now c s r content)) = now"
    by (simp add: create_message_def Let_def split: prod.split)
  have summary: "get_conversation (snd (create_message st now c s r content)) c =
     Some \<lparr>cv_conversation_id = c, cv_sender_id = s, cv_receiver_id = r,
           cv_last_message_at = datetime_of_timestamp (timestamp_of_datetime now),
           cv_last_message_content = Some content\<rparr>"
    by (rule get_conversation_after_create_message)
  have whole: "map_option cv_last_message_at
          (get_conversation (snd (create_message st now c s r content)) c) = Some now"
    if "now mod 1000 = 0"
    using that by (simp add: summary whole_millisecond_read_back)
  show ?thesis
    using summary whole message_row_after_create_message [of c s r now st content]
    by (simp only: ts) simp
qed

text \<open>A message created at a whole millisecond, the microsecond 100000.\<close>

theorem create_message_updates_summary_witness:
  "cm_timestamp (fst (create_message empty_store 100000 1 5 6 ''hello'')) mod 1000 = 0
   \<and> get_conversation (snd (create_message empty_store 100000 1 5 6 ''hello'')) 1 =
       Some \<lparr>cv_conversation_id = 1, cv_sender_id = 5, cv_receiver_id = 6,
             cv_last_message_at = 100000, cv_last_message_content = Some ''hello''\<rparr>
   \<and> map_option cv_last_message_at
         (get_conversation (snd (create_message empty_store 100000 1 5 6 ''hello'')) 1)
       = Some (cm_timestamp (fst (create_message empty_store 100000 1 5 6 ''hello'')))"
proof -
  have ts: "cm_timestamp (fst (create_message empty_store 100000 1 5 6 ''hello'')) = 100000"
    by code_simp
  have whole: "cm_timestamp (fst (create_message empty_store 100000 1 5 6 ''hello'')) mod 1000 = 0"
    by (simp add: ts)
  have rb: "datetime_of_timestamp (timestamp_of_datetime 100000) = 100000"
    by (simp add: datetime_of_timestamp_def timestamp_of_datetime_def)
  show ?thesis
    using whole create_message_updates_summary [of empty_store 100000 1 5 6 "''hello''"]
    by (simp add: ts rb)
qed

subsection \<open>Slices and pages\<close>

lemma set_py_slice: "set (py_slice xs a b) \<subseteq> set xs"
proof -
  have "set (take n (drop m xs)) \<subseteq> set xs" for n m
    using set_take_subset [of n "drop m xs"] set_drop_subset [of m xs] by blast
  then show ?thesis by (simp add: py_slice_def Let_def)
qed

lemma py_slice_all: "py_slice xs 0 (int (length xs)) = xs"
  by (simp add: py_slice_def slice_bound_def)

lemma take_min_length: "take (min l (length ys)) ys = take l ys"
  by (cases "l \<le> length ys") (simp_all add: min_def)

lemma py_slice_nat: "py_slice xs (int a) (int a + int l) = take l (drop a xs)"
proof -
  have lo: "slice_bound (length xs) (int a) = min a (length xs)"
    by (simp add: slice_bound_def)
  have "int a + int l = int (a + l)" by simp
  then have hi: "slice_bound (length xs) (int a + int l) = min (a + l) (length xs)"
    by (simp only: slice_bound_def) simp
  show ?thesis
  proof (cases "a < length xs")
    case True
    then have "min (a + l) (length xs) - min a (length xs) = min l (length (drop a xs))"
      by auto
    moreover have "min a (length xs) = a" using True by simp
    ultimately have "py_slice xs (int a) (int a + int l) =
        take (min l (length (drop a xs))) (drop a xs)"
      by (simp only: py_slice_def Let_def lo hi)
    then show ?thesis by (simp only: take_min_length)
  next
    case False
    then show ?thesis by (simp add: py_slice_def Let_def lo hi)
  qed
qed

lemma sorted_wrt_py_slice: "sorted_wrt P xs \<Longrightarrow> sorted_wrt P (py_slice xs a b)"
  by (simp add: py_slice_def Let_def sorted_wrt_take sorted_wrt_drop)

lemma concat_pages: "concat (map (\<lambda>i. take l (drop (i * l) xs)) [0..<k]) = take (k * l) xs"
proof (induction k)
  case 0
  then show ?case by simp
next
  case (Suc k)
  have "take (k * l) xs @ take l (drop (k * l) xs) = take (k * l + l) xs"
    by (simp add: take_add)
  with Suc show ?case by (simp add: add.commute)
qed

lemma fst_get_conversation_messages_on:
  "fst (get_conversation_messages_on count_output output c page limit) =
     py_slice (map (message_of_row c) output) (page_offset page limit)
       (page_offset page limit + limit)"
  by (simp add: get_conversation_messages_on_def Let_def)

lemma snd_get_conversation_messages_on:
  "snd (get_conversation_messages_on count_output output c page limit) = int (length output)"
  by (simp add: get_conversation_messages_on_def Let_def)

lemma fst_get_messages_before_timestamp_on:
  "fst (get_messages_before_timestamp_on count_output output c page limit) =
     py_slice (map (message_of_row c) output) (page_offset page limit)
       (page_offset page limit + limit)"
  by (simp add: get_messages_before_timestamp_on_def Let_def)

lemma snd_get_messages_before_timestamp_on:
  "snd (get_messages_before_timestamp_on count_output output c page limit) = int (length output)"
  by (simp add: get_messages_before_timestamp_on_def Let_def)

lemma page_of_nat:
  assumes "0 < limit"
  shows "fst (get_conversation_messages_on count_output output c (int i + 1) limit) =
           take (nat limit) (drop (i * nat limit) (map (message_of_row c) output))"
proof -
  have "page_offset (int i + 1) limit = int (i * nat limit)"
    using assms by (simp add: page_offset_def)
  moreover have "limit = int (nat limit)" using assms by simp
  ultimately have "fst (get_conversation_messages_on count_output output c (int i + 1) limit) =
      py_slice (map (message_of_row c) output) (int (i * nat limit))
        (int (i * nat limit) + int (nat limit))"
    by (simp add: fst_get_conversation_messages_on)
  then show ?thesis by (simp only: py_slice_nat)
qed

text \<open>
  The listing on the rows of a query: when the rows are ordered by timestamp descending,
  so is every page, and the pages 1, 2, ..., \<open>k\<close> of a size \<open>limit > 0\<close> put one after
  the other are the rows themselves once \<open>k\<close> pages cover them.
\<close>

lemma pages_sorted_and_tile_on:
  assumes "sorted_wrt (\<ge>) (map m_timestamp output)"
  shows "sorted_wrt (\<ge>) (map lm_created_at
             (fst (get_conversation_messages_on count_output output c page limit)))
         \<and> (0 < limit \<and> int (length output) \<le> int k * limit \<longrightarrow>
              concat (map (\<lambda>i. fst (get_conversation_messages_on count_output output c
                                      (int i + 1) limit)) [0..<k])
              = map (message_of_row c) output)"
proof -
  have "sorted_wrt (\<lambda>x y. lm_created_at x \<ge> lm_created_at y) (map (message_of_row c) output)"
    using assms by (simp add: sorted_wrt_map message_of_row_def datetime_of_timestamp_def)
  then have sorted_page: "sorted_wrt (\<ge>) (map lm_created_at
             (fst (get_conversation_messages_on count_output output c page limit)))"
    by (simp add: fst_get_conversation_messages_on sorted_wrt_map sorted_wrt_py_slice)
  have tile: "concat (map (\<lambda>i. fst (get_conversation_messages_on count_output output c
                                      (int i + 1) limit)) [0..<k])
              = map (message_of_row c) output"
    if pos: "0 < limit" and enough: "int (length output) \<le> int k * limit"
  proof -
    have "int (length output) \<le> int (k * nat limit)" using pos enough by simp
    then have len: "length (map (message_of_row c) output) \<le> k * nat limit"
      by (simp only: length_map of_nat_le_iff)
    have "concat (map (\<lambda>i. fst (get_conversation_messages_on count_output output c
                                      (int i + 1) limit)) [0..<k])
          = take (k * nat limit) (map (message_of_row c) output)"
      by (simp only: page_of_nat [OF pos] concat_pages)
    also have "\<dots> = map (message_of_row c) output"
      using len by (rule take_all)
    finally show ?thesis .
  qed
  show ?thesis using sorted_page tile by blast
qed

subsection \<open>The order of a partition\<close>

lemma set_clustering_order: "set (clustering_order rows) = set rows"
  by (simp add: clustering_order_def)

lemma length_clustering_order: "length (clustering_order rows) = length rows"
  by (simp add: clustering_order_def)

lemma sorted_fst_of_pairs:
  "sorted (map (\<lambda>r. (f r, g r)) rows) \<Longrightarrow> sorted (map f rows)"
  for f :: "'a \<Rightarrow> int" and g :: "'a \<Rightarrow> int"
  by (induction rows) (auto simp: less_eq_prod_def)

lemma clustering_order_descending:
  "sorted_wrt (\<ge>) (map m_timestamp (clustering_order rows))"
proof -
  have "sorted (map (\<lambda>r. (- m_timestamp r, m_message_id r)) (clustering_order rows))"
    unfolding clustering_order_def by (rule sorted_sort_key)
  then have "sorted (map (\<lambda>r. - m_timestamp r) (clustering_order rows))"
    by (rule sorted_fst_of_pairs)
  then have "sorted_wrt (\<lambda>x y. - m_timestamp x \<le> - m_timestamp y) (clustering_order rows)"
    by (simp add: sorted_wrt_map)
  then show ?thesis
    by (simp add: sorted_wrt_map)
qed

lemma select_messages_descending:
  "sorted_wrt (\<ge>) (map m_timestamp (select_messages st c))"
  by (simp add: select_messages_def clustering_order_descending)

lemma mset_select_messages:
  "mset (select_messages st c) = mset (filter (\<lambda>r. m_conversation_id r = c) (messages st))"
  by (simp add: select_messages_def clustering_order_def)

lemma distinct_select_messages:
  assumes "distinct (map (\<lambda>r. (m_conversation_id r, m_timestamp r, m_message_id r)) (messages st))"
  shows "distinct (map (message_of_row c) (select_messages st c))"
proof -
  have rows: "distinct (messages st)"
    using assms by (simp add: distinct_map)
  have key: "inj_on (\<lambda>r. (m_conversation_id r, m_timestamp r, m_message_id r)) (set (messages st))"
    using assms by (simp add: distinct_map)
  have "inj_on (message_of_row c) (set (select_messages st c))"
  proof (rule inj_onI)
    fix x y
    assume x: "x \<in> set (select_messages st c)" and y: "y \<in> set (select_messages st c)"
      and eq: "message_of_row c x = message_of_row c y"
    from x y have mem: "x \<in> set (messages st)" "y \<in> set (messages st)"
      and conv: "m_conversation_id x = c" "m_conversation_id y = c"
      by (auto simp: select_messages_def set_clustering_order)
    from eq have "m_timestamp x = m_timestamp y" "m_message_id x = m_message_id y"
      by (simp_all add: message_of_row_def datetime_of_timestamp_def)
    with conv have "(m_conversation_id x, m_timestamp x, m_message_id x)
        = (m_conversation_id y, m_timestamp y, m_message_id y)"
      by simp
    with key mem show "x = y"
      by (auto dest: inj_onD)
  qed
  moreover have "distinct (select_messages st c)"
    using rows by (simp add: select_messages_def clustering_order_def)
  ultimately show ?thesis
    by (simp add: distinct_map)
qed

text \<open>
  C8. The store returns the rows of a conversation ordered by timestamp descending (the
  clustering order of \<^verbatim>\<open>messages\<close>), and every page of \<^verbatim>\<open>get_conversation_messages\<close> is
  ordered by timestamp descending. For a page size \<open>limit > 0\<close> and a number \<open>k\<close> of
  pages that covers the total, the pages 1, 2, ..., \<open>k\<close> put one after the other are
  ordered by timestamp descending and hold the messages of the rows of \<^verbatim>\<open>messages\<close> whose
  \<^verbatim>\<open>conversation_id\<close> is that of the conversation, each as often as the table has its row
  and no other message: none is missing and, the table having one row for each primary
  key, none comes twice.
\<close>

theorem pages_sorted_and_tile:
  "sorted_wrt (\<ge>) (map lm_created_at (fst (get_conversation_messages st c page limit)))
   \<and> (0 < limit \<and> snd (get_conversation_messages st c 1 limit) \<le> int k * limit \<longrightarrow>
        sorted_wrt (\<ge>) (map lm_created_at
          (concat (map (\<lambda>i. fst (get_conversation_messages st c (int i + 1) limit)) [0..<k])))
        \<and> mset (concat (map (\<lambda>i. fst (get_conversation_messages st c (int i + 1) limit))
                           [0..<k]))
            = mset (map (message_of_row c)
                      (filter (\<lambda>r. m_conversation_id r = c) (messages st)))
        \<and> (distinct (map (\<lambda>r. (m_conversation_id r, m_timestamp r, m_message_id r))
                        (messages st)) \<longrightarrow>
             distinct (concat (map (\<lambda>i. fst (get_conversation_messages st c (int i + 1) limit))
                                 [0..<k]))))"
proof -
  let ?out = "select_messages st c"
  let ?pages = "concat (map (\<lambda>i. fst (get_conversation_messages st c (int i + 1) limit)) [0..<k])"
  note rows = pages_sorted_and_tile_on
      [of "select_messages st c" "count_messages st c" c page limit k,
       OF select_messages_descending]
  have page: "sorted_wrt (\<ge>) (map lm_created_at (fst (get_conversation_messages st c page limit)))"
    using rows by (simp add: get_conversation_messages_def)
  have all: "sorted_wrt (\<ge>) (map lm_created_at (map (message_of_row c) ?out))"
    using select_messages_descending [of st c]
    by (simp add: sorted_wrt_map message_of_row_def datetime_of_timestamp_def)
  have full: "mset (map (message_of_row c) ?out)
      = mset (map (message_of_row c) (filter (\<lambda>r. m_conversation_id r = c) (messages st)))"
    by (simp add: mset_select_messages)
  have covered: "sorted_wrt (\<ge>) (map lm_created_at ?pages)
        \<and> mset ?pages
            = mset (map (message_of_row c)
                      (filter (\<lambda>r. m_conversation_id r = c) (messages st)))
        \<and> (distinct (map (\<lambda>r. (m_conversation_id r, m_timestamp r, m_message_id r))
                        (messages st)) \<longrightarrow> distinct ?pages)"
    if pos: "0 < limit"
      and enough: "snd (get_conversation_messages st c 1 limit) \<le> int k * limit"
  proof -
    have "int (length ?out) \<le> int k * limit"
      using enough
      by (simp add: get_conversation_messages_def snd_get_conversation_messages_on)
    with pos rows have tile: "?pages = map (message_of_row c) ?out"
      by (simp add: get_conversation_messages_def)
    show ?thesis
      unfolding tile using all full distinct_select_messages [of st c] by blast
  qed
  show ?thesis
    using page covered by blast
qed

text \<open>
  The store of two conversations, conversation 1, pages of two messages: two pages cover
  its three messages, and the message of conversation 2 is in none.
\<close>

theorem pages_sorted_and_tile_witness:
  "(0::int) < 2 \<and> snd (get_conversation_messages two_partitions 1 1 2) \<le> int 2 * 2
   \<and> distinct (map (\<lambda>r. (m_conversation_id r, m_timestamp r, m_message_id r))
                  (messages two_partitions))
   \<and> map lm_id (fst (get_conversation_messages two_partitions 1 1 2)) = [2, 3]
   \<and> map lm_id (fst (get_conversation_messages two_partitions 1 2 2)) = [1]
   \<and> sorted_wrt (\<ge>) (map lm_created_at (fst (get_conversation_messages two_partitions 1 1 2)))
   \<and> mset (concat (map (\<lambda>i. fst (get_conversation_messages two_partitions 1 (int i + 1) 2))
                      [0..<2]))
       = mset (map (message_of_row 1)
                 (filter (\<lambda>r. m_conversation_id r = 1) (messages two_partitions)))
   \<and> distinct (concat (map (\<lambda>i. fst (get_conversation_messages two_partitions 1 (int i + 1) 2))
                         [0..<2]))"
proof -
  have l: "(0::int) < 2 \<and> snd (get_conversation_messages two_partitions 1 1 2) \<le> int 2 * 2"
    by code_simp
  have d: "distinct (map (\<lambda>r. (m_conversation_id r, m_timestamp r, m_message_id r))
                  (messages two_partitions))"
    by code_simp
  have p1: "map lm_id (fst (get_conversation_messages two_partitions 1 1 2)) = [2, 3]"
    by code_simp
  have p2: "map lm_id (fst (get_conversation_messages two_partitions 1 2 2)) = [1]"
    by code_simp
  show ?thesis
    using l d p1 p2 pages_sorted_and_tile [of two_partitions 1 1 2 2]
    by blast
qed

subsection \<open>The total of a listing\<close>

text \<open>
  C6. The total that \<^verbatim>\<open>get_conversation_messages\<close> and
  \<^verbatim>\<open>get_messages_before_timestamp\<close> return is the number of rows that the
  \<^verbatim>\<open>SELECT\<close> fetched, for every page and limit: the length of the list of mapped rows
  before it is sliced. The \<^verbatim>\<open>COUNT\<close> query runs, but whatever it returns, the result of
  the listing is the one it has when the query returns nothing.
\<close>

theorem total_is_length_of_fetched_rows:
  "snd (get_conversation_messages_on count_output output c page limit) = int (length output)
   \<and> snd (get_messages_before_timestamp_on count_output output c page limit) = int (length output)
   \<and> get_conversation_messages_on count_output output c page limit
       = get_conversation_messages_on [] output c page limit
   \<and> get_messages_before_timestamp_on count_output output c page limit
       = get_messages_before_timestamp_on [] output c page limit
   \<and> snd (get_conversation_messages st c page limit) = int (length (select_messages st c))
   \<and> snd (get_messages_before_timestamp st c t page limit)
       = int (length (select_messages_before st c t))"
  by (simp add: get_conversation_messages_on_def get_messages_before_timestamp_on_def
      get_conversation_messages_def get_messages_before_timestamp_def Let_def)

subsection \<open>Messages before a timestamp\<close>

lemma before_timestamp_of_datetime:
  assumes "ms < timestamp_of_datetime t"
  shows "datetime_of_timestamp ms < t"
proof (cases "0 \<le> t")
  case True
  with assms have "ms < t div 1000"
    by (simp add: timestamp_of_datetime_def)
  then have "ms * 1000 < t" by arith
  then show ?thesis by (simp add: datetime_of_timestamp_def)
next
  case False
  with assms have "ms < - ((- t) div 1000)"
    by (simp add: timestamp_of_datetime_def)
  then have "ms * 1000 < t" by arith
  then show ?thesis by (simp add: datetime_of_timestamp_def)
qed

lemma full_listing:
  "fst (get_conversation_messages st c 1 (snd (get_conversation_messages st c 1 1)))
     = map (message_of_row c) (select_messages st c)"
proof -
  have "py_slice (map (message_of_row c) (select_messages st c)) 0
          (int (length (map (message_of_row c) (select_messages st c))))
        = map (message_of_row c) (select_messages st c)"
    by (rule py_slice_all)
  then show ?thesis
    by (simp add: get_conversation_messages_def fst_get_conversation_messages_on
        snd_get_conversation_messages_on page_offset_def)
qed

text \<open>
  C7. Every message that \<^verbatim>\<open>get_messages_before_timestamp(c, t, page, limit)\<close> returns
  has a timestamp strictly less than \<open>t\<close>, so none has a timestamp greater than or
  equal to \<open>t\<close>, and is one of the messages of the full listing of the conversation,
  which is the first page of \<^verbatim>\<open>get_conversation_messages\<close> with the total as the limit.
\<close>

theorem messages_before_timestamp_subset:
  "\<forall>m \<in> set (fst (get_messages_before_timestamp st c t page limit)).
      lm_created_at m < t
      \<and> m \<in> set (fst (get_conversation_messages st c 1
                          (snd (get_conversation_messages st c 1 1))))"
proof
  fix m
  assume "m \<in> set (fst (get_messages_before_timestamp st c t page limit))"
  then have "m \<in> set (map (message_of_row c) (select_messages_before st c t))"
    using set_py_slice
    by (fastforce simp: get_messages_before_timestamp_def fst_get_messages_before_timestamp_on)
  then obtain row where row: "row \<in> set (messages st)" "m_conversation_id row = c"
      "m_timestamp row < timestamp_of_datetime t" and m: "m = message_of_row c row"
    by (auto simp: select_messages_before_def set_clustering_order)
  have "lm_created_at m < t"
    using row m by (simp add: message_of_row_def before_timestamp_of_datetime)
  moreover have "m \<in> set (map (message_of_row c) (select_messages st c))"
    using row m by (auto simp: select_messages_def set_clustering_order)
  ultimately show "lm_created_at m < t
      \<and> m \<in> set (fst (get_conversation_messages st c 1
                          (snd (get_conversation_messages st c 1 1))))"
    by (simp only: full_listing)
qed


theorem messages_before_timestamp_subset_witness:
  "message_of_row 1 \<lparr>m_conversation_id = 1, m_sender_id = 5, m_receiver_id = 6,
       m_timestamp = 20, m_message_id = 3, m_content = ''c''\<rparr>
     \<in> set (fst (get_messages_before_timestamp three_messages 1 25000 1 20))
   \<and> lm_created_at (message_of_row 1 \<lparr>m_conversation_id = 1, m_sender_id = 5,
       m_receiver_id = 6, m_timestamp = 20, m_message_id = 3, m_content = ''c''\<rparr>) < 25000
   \<and> message_of_row 1 \<lparr>m_conversation_id = 1, m_sender_id = 5, m_receiver_id = 6,
       m_timestamp = 20, m_message_id = 3, m_content = ''c''\<rparr>
     \<in> set (fst (get_conversation_messages three_messages 1 1
                    (snd (get_conversation_messages three_messages 1 1 1))))"
proof -
  let ?m = "message_of_row 1 \<lparr>m_conversation_id = 1, m_sender_id = 5, m_receiver_id = 6,
       m_timestamp = 20, m_message_id = 3, m_content = ''c''\<rparr>"
  have "fst (get_messages_before_timestamp three_messages 1 25000 1 20) =
      [?m, message_of_row 1 \<lparr>m_conversation_id = 1, m_sender_id = 5, m_receiver_id = 6,
       m_timestamp = 10, m_message_id = 1, m_content = ''a''\<rparr>]"
    by code_simp
  then have mem: "?m \<in> set (fst (get_messages_before_timestamp three_messages 1 25000 1 20))"
    by simp
  show ?thesis
    using mem
      messages_before_timestamp_subset [of three_messages 1 25000 1 20, THEN bspec, OF mem]
    by simp
qed

subsection \<open>The order of the conversations of a user\<close>

text \<open>
  C4. \<^verbatim>\<open>get_user_conversations\<close> puts the rows of the scan by \<^verbatim>\<open>sender_id\<close> before the
  rows of the scan by \<^verbatim>\<open>receiver_id\<close>; the list that \<^verbatim>\<open>sorted\<close> builds is dropped, and
  the page is a slice of the concatenation as it is, its total the length of the
  concatenation. So the page is in the order of the two scans and not in an order of the
  timestamps: for user 7 of the example the timestamps come out as the milliseconds 20,
  10, 30.
\<close>

theorem get_user_conversations_keeps_scan_order:
  "get_user_conversations st u page limit =
     (map conversation_of_row
        (py_slice (select_user_conversations_by_sender st u
                     @ select_user_conversations_by_receiver st u)
           (page_offset page limit) (page_offset page limit + limit)),
      int (length (select_user_conversations_by_sender st u
                     @ select_user_conversations_by_receiver st u)))
   \<and> map lc_last_message_at (fst (get_user_conversations three_conversations 7 1 20))
       = [20000, 10000, 30000]"
proof -
  have "map lc_last_message_at (fst (get_user_conversations three_conversations 7 1 20))
       = [20000, 10000, 30000]"
    by code_simp
  then show ?thesis
    by (simp add: get_user_conversations_def Let_def)
qed

subsection \<open>Pages that are not validated\<close>

text \<open>
  C9, as the claim states it, fails: a page \<open>\<le> 0\<close> does not always give an offset
  \<open>\<le> 0\<close>. With page 0 and limit \<open>-1\<close> the offset is 1.
\<close>

theorem nonpositive_page_positive_offset: "(0::int) \<le> 0 \<and> \<not> page_offset 0 (- 1) \<le> 0"
  by (simp add: page_offset_def)

text \<open>
  C9, amended. The two message listings slice the fetched list at
  \<^verbatim>\<open>[(page-1)*limit : (page-1)*limit + limit]\<close>, for every page and limit, with no
  validation and no error: the result is this slice whatever the arithmetic gives. A
  call with page \<open>\<le> 0\<close> and limit \<open>\<ge> 0\<close> has a negative or zero offset; a call with
  page \<open>\<le> 0\<close> and limit \<open>< 0\<close> has a positive one.
\<close>

theorem listing_slices_without_validation:
  "fst (get_conversation_messages_on count_output output c page limit) =
     py_slice (map (message_of_row c) output)
       ((page - 1) * limit) ((page - 1) * limit + limit)
   \<and> fst (get_messages_before_timestamp_on count_output output c page limit) =
     py_slice (map (message_of_row c) output)
       ((page - 1) * limit) ((page - 1) * limit + limit)
   \<and> (page \<le> 0 \<and> 0 \<le> limit \<longrightarrow> page_offset page limit \<le> 0)
   \<and> (page \<le> 0 \<and> limit < 0 \<longrightarrow> 0 < page_offset page limit)"
proof -
  have neg: "page_offset page limit \<le> 0" if "page \<le> 0" "0 \<le> limit"
  proof -
    have "page - 1 \<le> 0" using that by simp
    then show ?thesis
      unfolding page_offset_def using that(2) by (rule mult_nonpos_nonneg)
  qed
  have pos: "0 < page_offset page limit" if "page \<le> 0" "limit < 0"
  proof -
    have "page - 1 < 0" using that by simp
    then show ?thesis
      unfolding page_offset_def using that(2) by (rule mult_neg_neg)
  qed
  show ?thesis
    using neg pos
    by (simp add: fst_get_conversation_messages_on fst_get_messages_before_timestamp_on
        page_offset_def)
qed

text \<open>
  Page \<open>-1\<close> with limit 1 in the example: the offset is \<open>-2\<close>, the slice is
  \<^verbatim>\<open>[-2:-1]\<close>, and the page holds the second of the three messages.
\<close>

theorem listing_slices_without_validation_witness:
  "(- 1::int) \<le> 0 \<and> (0::int) \<le> 1 \<and> page_offset (- 1) 1 \<le> 0
   \<and> fst (get_conversation_messages three_messages 1 (- 1) 1) =
       py_slice (map (message_of_row 1) (select_messages three_messages 1)) (- 2) (- 1)
   \<and> map lm_id (fst (get_conversation_messages three_messages 1 (- 1) 1)) = [3]"
proof -
  have ev: "map lm_id (fst (get_conversation_messages three_messages 1 (- 1) 1)) = [3]"
    by code_simp
  show ?thesis
    using ev listing_slices_without_validation
      [of "count_messages three_messages 1" "select_messages three_messages 1" 1 "- 1" 1]
    by (simp add: get_conversation_messages_def)
qed

subsection \<open>A conversation of a user with themselves\<close>

text \<open>
  A table has one row for each value of its primary key. \<^verbatim>\<open>create_message\<close>, the one
  operation that writes \<^verbatim>\<open>user_conversations\<close>, keeps it so.
\<close>

lemma create_message_keeps_key:
  assumes "distinct (map s_conversation_id (user_conversations st))"
  shows "distinct (map s_conversation_id
                     (user_conversations (snd (create_message st now c s r content))))"
proof -
  have "user_conversations (insert_message (increment_index st ''message_id'') i c s r content now)
          = user_conversations st" for i
    by (simp add: insert_message_def increment_index_def)
  then show ?thesis
    using assms
    by (simp add: create_message_def next_id_def Let_def insert_user_conversation_def
        update_user_conversation_def distinct_upsert)
qed

lemma conversation_of_row_inj:
  "conversation_of_row a = conversation_of_row b \<longleftrightarrow> a = b"
  by (cases a, cases b) (auto simp: conversation_of_row_def datetime_of_timestamp_def)

lemma count_list_conversation_of_row:
  "count_list (map conversation_of_row rows) (conversation_of_row row) = count_list rows row"
  by (induction rows) (simp_all add: conversation_of_row_inj)

lemma count_list_filter:
  "count_list (filter P rows) row = (if P row then count_list rows row else 0)"
  by (induction rows) auto

lemma count_list_distinct:
  "distinct rows \<Longrightarrow> row \<in> set rows \<Longrightarrow> count_list rows row = 1"
  by (induction rows) auto

lemma length_filter_sum_list:
  "int (length (filter P rows)) = sum_list (map (\<lambda>r. if P r then 1 else 0) rows)"
  by (induction rows) simp_all

lemma full_conversation_listing:
  "fst (get_user_conversations st u 1 (snd (get_user_conversations st u 1 1))) =
     map conversation_of_row
       (select_user_conversations_by_sender st u @ select_user_conversations_by_receiver st u)"
proof -
  let ?rows = "select_user_conversations_by_sender st u
                 @ select_user_conversations_by_receiver st u"
  have "py_slice ?rows 0 (int (length ?rows)) = ?rows"
    by (rule py_slice_all)
  then show ?thesis
    by (simp add: get_user_conversations_def Let_def page_offset_def)
qed

text \<open>
  C10. In a \<^verbatim>\<open>user_conversations\<close> table that has one row for each
  \<^verbatim>\<open>conversation_id\<close>, take a row of the table and a user \<open>u\<close>. When both
  \<^verbatim>\<open>sender_id\<close> and \<^verbatim>\<open>receiver_id\<close> of the row are \<open>u\<close>, the full result of
  \<^verbatim>\<open>get_user_conversations\<close> for \<open>u\<close> holds the row twice, once from each scan; when
  exactly one of the two is \<open>u\<close>, it holds the row once. The total counts every row
  once for its sender being \<open>u\<close> and once for its receiver being \<open>u\<close>, so the row of a
  conversation of \<open>u\<close> with themselves counts twice.
\<close>

theorem self_conversation_listed_twice:
  assumes key: "distinct (map s_conversation_id (user_conversations st))"
    and row: "row \<in> set (user_conversations st)"
  shows "(s_sender_id row = u \<and> s_receiver_id row = u \<longrightarrow>
            count_list (fst (get_user_conversations st u 1
                               (snd (get_user_conversations st u 1 1))))
              (conversation_of_row row) = 2)
         \<and> (s_sender_id row = u \<and> s_receiver_id row \<noteq> u
              \<or> s_sender_id row \<noteq> u \<and> s_receiver_id row = u \<longrightarrow>
            count_list (fst (get_user_conversations st u 1
                               (snd (get_user_conversations st u 1 1))))
              (conversation_of_row row) = 1)
         \<and> snd (get_user_conversations st u page limit) =
             sum_list (map (\<lambda>r. (if s_sender_id r = u then 1 else 0)
                                + (if s_receiver_id r = u then 1 else 0))
                        (user_conversations st))"
proof -
  have "distinct (user_conversations st)"
    using key by (simp add: distinct_map)
  then have one: "count_list (user_conversations st) row = 1"
    using row by (rule count_list_distinct)
  have count: "count_list (fst (get_user_conversations st u 1
                               (snd (get_user_conversations st u 1 1))))
              (conversation_of_row row)
        = (if s_sender_id row = u then 1 else 0) + (if s_receiver_id row = u then 1 else 0)"
    by (simp add: full_conversation_listing count_list_conversation_of_row
        select_user_conversations_by_sender_def select_user_conversations_by_receiver_def
        count_list_filter one)
  have "snd (get_user_conversations st u page limit) =
      int (length (filter (\<lambda>r. s_sender_id r = u) (user_conversations st)))
      + int (length (filter (\<lambda>r. s_receiver_id r = u) (user_conversations st)))"
    by (simp add: get_user_conversations_def Let_def
        select_user_conversations_by_sender_def select_user_conversations_by_receiver_def)
  then have total: "snd (get_user_conversations st u page limit) =
             sum_list (map (\<lambda>r. (if s_sender_id r = u then 1 else 0)
                                + (if s_receiver_id r = u then 1 else 0))
                        (user_conversations st))"
    by (simp only: length_filter_sum_list sum_list_addf)
  show ?thesis
    using count total by simp
qed

lemma self_conversation_rows:
  "user_conversations self_conversation =
     [\<lparr>s_sender_id = 5, s_receiver_id = 5, s_conversation_id = 1, s_last_timestamp = 10,
        s_last_message = ''n''\<rparr>,
      \<lparr>s_sender_id = 5, s_receiver_id = 6, s_conversation_id = 2, s_last_timestamp = 20,
        s_last_message = ''m''\<rparr>]"
  by code_simp

theorem self_conversation_listed_twice_witness:
  "distinct (map s_conversation_id (user_conversations self_conversation))
   \<and> \<lparr>s_sender_id = 5, s_receiver_id = 5, s_conversation_id = 1, s_last_timestamp = 10,
        s_last_message = ''n''\<rparr> \<in> set (user_conversations self_conversation)
   \<and> count_list (fst (get_user_conversations self_conversation 5 1
                         (snd (get_user_conversations self_conversation 5 1 1))))
        (conversation_of_row \<lparr>s_sender_id = 5, s_receiver_id = 5, s_conversation_id = 1,
           s_last_timestamp = 10, s_last_message = ''n''\<rparr>) = 2
   \<and> \<lparr>s_sender_id = 5, s_receiver_id = 6, s_conversation_id = 2, s_last_timestamp = 20,
        s_last_message = ''m''\<rparr> \<in> set (user_conversations self_conversation)
   \<and> count_list (fst (get_user_conversations self_conversation 5 1
                         (snd (get_user_conversations self_conversation 5 1 1))))
        (conversation_of_row \<lparr>s_sender_id = 5, s_receiver_id = 6, s_conversation_id = 2,
           s_last_timestamp = 20, s_last_message = ''m''\<rparr>) = 1
   \<and> snd (get_user_conversations self_conversation 5 1 20) = 3"
proof -
  let ?self = "\<lparr>s_sender_id = 5, s_receiver_id = 5, s_conversation_id = 1,
                 s_last_timestamp = 10, s_last_message = ''n''\<rparr>"
  let ?other = "\<lparr>s_sender_id = 5, s_receiver_id = 6, s_conversation_id = 2,
                  s_last_timestamp = 20, s_last_message = ''m''\<rparr>"
  have key: "distinct (map s_conversation_id (user_conversations self_conversation))"
    by (simp add: self_conversation_rows)
  have self: "?self \<in> set (user_conversations self_conversation)"
    by (simp add: self_conversation_rows)
  have other: "?other \<in> set (user_conversations self_conversation)"
    by (simp add: self_conversation_rows)
  show ?thesis
    using key self other
      self_conversation_listed_twice [OF key self, of 5 1 20]
      self_conversation_listed_twice [OF key other, of 5 1 20]
    by (simp add: self_conversation_rows)
qed

subsection \<open>Creating a conversation\<close>

lemma upsert_filter_new:
  "filter P rows = [] \<Longrightarrow> P row \<Longrightarrow> filter P (upsert key row rows) = [row]"
  by (induction rows) (auto split: if_splits)

lemma upsert_filter_other:
  "filter P rows = [] \<Longrightarrow> \<not> P row \<Longrightarrow> filter P (upsert key row rows) = []"
  by (induction rows) (auto split: if_splits)

lemma create_or_get_creates:
  assumes "select_conversation_ids st a b = []" and "select_conversation_ids st b a = []"
  shows "create_or_get_conversation st now a b =
           (Some \<lparr>cv_conversation_id = counter_value st ''conversation_id'' + 1,
                   cv_sender_id = a, cv_receiver_id = b, cv_last_message_at = now,
                   cv_last_message_content = None\<rparr>,
            insert_conversation (increment_index st ''conversation_id'')
              (counter_value st ''conversation_id'' + 1) a b now)"
  using assms
  by (simp add: create_or_get_conversation_def next_id_def Let_def id_of_output_select_index)

lemma create_or_get_again:
  assumes one: "select_conversation_ids st a b = []"
    and two: "select_conversation_ids st b a = []"
  shows "fst (create_or_get_conversation (snd (create_or_get_conversation st now a b)) now' a b)
           = get_conversation st (counter_value st ''conversation_id'' + 1)
         \<and> fst (create_or_get_conversation (snd (create_or_get_conversation st now a b)) now' b a)
           = get_conversation st (counter_value st ''conversation_id'' + 1)"
proof -
  let ?c = "counter_value st ''conversation_id'' + 1"
  let ?row = "\<lparr>i_conversation_id = ?c, i_sender_id = a, i_receiver_id = b,
                i_last_timestamp = timestamp_of_datetime now\<rparr>"
  let ?st' = "insert_conversation (increment_index st ''conversation_id'') ?c a b now"
  have st': "snd (create_or_get_conversation st now a b) = ?st'"
    by (simp add: create_or_get_creates [OF one two])
  have conv: "conversations ?st' =
      upsert (\<lambda>r. (i_conversation_id r, i_sender_id r)) ?row (conversations st)"
    by (simp add: insert_conversation_def increment_index_def)
  have f1: "filter (\<lambda>row. i_sender_id row = a \<and> i_receiver_id row = b) (conversations st) = []"
    using one by (simp add: select_conversation_ids_def)
  have f2: "filter (\<lambda>row. i_sender_id row = b \<and> i_receiver_id row = a) (conversations st) = []"
    using two by (simp add: select_conversation_ids_def)
  have "filter (\<lambda>row. i_sender_id row = a \<and> i_receiver_id row = b)
          (upsert (\<lambda>r. (i_conversation_id r, i_sender_id r)) ?row (conversations st)) = [?row]"
    by (rule upsert_filter_new [OF f1]) simp
  then have ab: "select_conversation_ids ?st' a b = [?c]"
    by (simp add: select_conversation_ids_def conv)
  have ba: "select_conversation_ids ?st' b a = (if a = b then [?c] else [])"
  proof (cases "a = b")
    case True
    then show ?thesis using ab by simp
  next
    case False
    then have "filter (\<lambda>row. i_sender_id row = b \<and> i_receiver_id row = a)
          (upsert (\<lambda>r. (i_conversation_id r, i_sender_id r)) ?row (conversations st)) = []"
      by (intro upsert_filter_other [OF f2]) simp
    with False show ?thesis
      by (simp add: select_conversation_ids_def conv)
  qed
  have summ: "get_conversation ?st' c = get_conversation st c" for c
    by (simp add: get_conversation_def select_user_conversation_def insert_conversation_def
        increment_index_def)
  have r1: "fst (create_or_get_conversation ?st' now' a b) = get_conversation st ?c"
    by (simp add: create_or_get_conversation_def ab Let_def summ)
  have r2: "fst (create_or_get_conversation ?st' now' b a) = get_conversation st ?c"
  proof (cases "a = b")
    case True
    then show ?thesis using r1 by simp
  next
    case False
    then show ?thesis
      by (simp add: create_or_get_conversation_def ab ba Let_def summ)
  qed
  show ?thesis
    using r1 r2 by (simp only: st')
qed

text \<open>
  C1 asks the second of two calls of \<^verbatim>\<open>create_or_get_conversation\<close> for the same pair
  to return the \<^verbatim>\<open>conversation_id\<close> of the first. The second call does find that
  identifier in \<^verbatim>\<open>conversations\<close>, as \<open>create_or_get_again\<close> shows, but it returns
  what \<^verbatim>\<open>get_conversation\<close> reads from \<^verbatim>\<open>user_conversations\<close>, where the first call
  wrote nothing. In the empty store the first call for the users 1 and 2 returns
  conversation 1, and the second call returns \<^verbatim>\<open>None\<close>, for the pair \<open>(1, 2)\<close> and for
  the pair \<open>(2, 1)\<close>.
\<close>

theorem create_or_get_conversation_second_call_returns_none:
  "fst (create_or_get_conversation empty_store 100 1 2) =
     Some \<lparr>cv_conversation_id = 1, cv_sender_id = 1, cv_receiver_id = 2,
           cv_last_message_at = 100, cv_last_message_content = None\<rparr>
   \<and> select_conversation_ids (snd (create_or_get_conversation empty_store 100 1 2)) 1 2 = [1]
   \<and> fst (create_or_get_conversation
             (snd (create_or_get_conversation empty_store 100 1 2)) 200 1 2) = None
   \<and> fst (create_or_get_conversation
             (snd (create_or_get_conversation empty_store 100 1 2)) 200 2 1) = None"
  by code_simp

text \<open>
  C2, as the claim states it, fails: \<^verbatim>\<open>create_conversation\<close> writes no row of
  \<^verbatim>\<open>user_conversations\<close>. In the empty store it allocates the identifier 1, and after
  it the summary table is empty and \<^verbatim>\<open>get_conversation(1)\<close> is \<^verbatim>\<open>None\<close>.
\<close>

theorem create_conversation_writes_no_summary:
  "cc_conversation_id (fst (create_conversation empty_store 100 1 2)) = 1
   \<and> user_conversations (snd (create_conversation empty_store 100 1 2)) = []
   \<and> get_conversation (snd (create_conversation empty_store 100 1 2)) 1 = None"
  by code_simp

text \<open>
  C2, amended. \<^verbatim>\<open>create_conversation(sender_id, receiver_id)\<close> allocates a new
  identifier from the counter \<^verbatim>\<open>conversation_id\<close> and writes the identity row of the
  new conversation into \<^verbatim>\<open>conversations\<close>, in every store, so without a check for a
  conversation of the pair; it leaves \<^verbatim>\<open>user_conversations\<close> as it is. When neither
  probe of \<^verbatim>\<open>create_or_get_conversation\<close> finds a conversation, that function takes
  the same path: it leaves the same store and returns the same identifier, with no last
  message.
\<close>

theorem create_conversation_writes_identity_only:
  "create_conversation st now s r =
     (\<lparr>cc_conversation_id = counter_value st ''conversation_id'' + 1, cc_sender_id = s,
       cc_receiver_id = r, cc_created_at = now\<rparr>,
      insert_conversation (increment_index st ''conversation_id'')
        (counter_value st ''conversation_id'' + 1) s r now)
   \<and> \<lparr>i_conversation_id = counter_value st ''conversation_id'' + 1, i_sender_id = s,
       i_receiver_id = r, i_last_timestamp = timestamp_of_datetime now\<rparr>
       \<in> set (conversations (snd (create_conversation st now s r)))
   \<and> user_conversations (snd (create_conversation st now s r)) = user_conversations st
   \<and> (select_conversation_ids st s r = [] \<and> select_conversation_ids st r s = [] \<longrightarrow>
        snd (create_or_get_conversation st now s r) = snd (create_conversation st now s r)
        \<and> fst (create_or_get_conversation st now s r) =
            Some \<lparr>cv_conversation_id = cc_conversation_id (fst (create_conversation st now s r)),
                  cv_sender_id = s, cv_receiver_id = r, cv_last_message_at = now,
                  cv_last_message_content = None\<rparr>)"
proof -
  have eq: "create_conversation st now s r =
     (\<lparr>cc_conversation_id = counter_value st ''conversation_id'' + 1, cc_sender_id = s,
       cc_receiver_id = r, cc_created_at = now\<rparr>,
      insert_conversation (increment_index st ''conversation_id'')
        (counter_value st ''conversation_id'' + 1) s r now)"
    by (simp add: create_conversation_def next_id_def Let_def id_of_output_select_index)
  have mem: "\<lparr>i_conversation_id = counter_value st ''conversation_id'' + 1, i_sender_id = s,
       i_receiver_id = r, i_last_timestamp = timestamp_of_datetime now\<rparr>
       \<in> set (conversations (snd (create_conversation st now s r)))"
    by (simp add: eq insert_conversation_def row_in_upsert)
  have summ: "user_conversations (snd (create_conversation st now s r)) = user_conversations st"
    by (simp add: eq insert_conversation_def increment_index_def)
  have same: "snd (create_or_get_conversation st now s r) = snd (create_conversation st now s r)
        \<and> fst (create_or_get_conversation st now s r) =
            Some \<lparr>cv_conversation_id = cc_conversation_id (fst (create_conversation st now s r)),
                  cv_sender_id = s, cv_receiver_id = r, cv_last_message_at = now,
                  cv_last_message_content = None\<rparr>"
    if "select_conversation_ids st s r = []" "select_conversation_ids st r s = []"
    by (simp add: create_or_get_creates [OF that] eq)
  show ?thesis
    using eq mem summ same by blast
qed

text \<open>
  In the empty store neither probe for the users 1 and 2 finds a row. A second
  \<^verbatim>\<open>create_conversation\<close> for the same pair allocates conversation 2.
\<close>

theorem create_conversation_writes_identity_only_witness:
  "select_conversation_ids empty_store 1 2 = [] \<and> select_conversation_ids empty_store 2 1 = []
   \<and> snd (create_or_get_conversation empty_store 100000 1 2)
       = snd (create_conversation empty_store 100000 1 2)
   \<and> conversations (snd (create_conversation empty_store 100000 1 2)) =
       [\<lparr>i_conversation_id = 1, i_sender_id = 1, i_receiver_id = 2, i_last_timestamp = 100\<rparr>]
   \<and> user_conversations (snd (create_conversation empty_store 100000 1 2)) = []
   \<and> map i_conversation_id (conversations (snd (create_conversation
         (snd (create_conversation empty_store 100000 1 2)) 200000 1 2))) = [1, 2]"
proof -
  have h: "select_conversation_ids empty_store 1 2 = []
           \<and> select_conversation_ids empty_store 2 1 = []"
    by (simp add: select_conversation_ids_def empty_store_def)
  have c: "conversations (snd (create_conversation empty_store 100000 1 2)) =
       [\<lparr>i_conversation_id = 1, i_sender_id = 1, i_receiver_id = 2, i_last_timestamp = 100\<rparr>]"
    by code_simp
  have d: "map i_conversation_id (conversations (snd (create_conversation
         (snd (create_conversation empty_store 100000 1 2)) 200000 1 2))) = [1, 2]"
    by code_simp
  note inst = create_conversation_writes_identity_only [of empty_store 100000 1 2]
  have same: "snd (create_or_get_conversation empty_store 100000 1 2)
       = snd (create_conversation empty_store 100000 1 2)"
    using inst h by blast
  have "user_conversations (snd (create_conversation empty_store 100000 1 2))
       = user_conversations empty_store"
    using inst by blast
  then have u: "user_conversations (snd (create_conversation empty_store 100000 1 2)) = []"
    by (simp add: empty_store_def)
  show ?thesis
    using h same c u d by blast
qed

end
